theory Spec2Isabelle
  imports Complex_Main "HOL-Library.Word"
begin

section \<open>Common values\<close>

text \<open>
  Exceptions of the Python sources are values. Scores and times are Python floats; they
  are modelled as reals, since the code only compares, subtracts and divides them.
\<close>

datatype error =
    NotEvaluatedError
  | TypeError
  | AttributeError
  | IndexError
  | ValueError
  | ZeroDivisionError
  | UnknownModelTypeError
  | RandomForestModelException string
  | EvolutionaryModelException string

text \<open>
  Modelled from the spec: the module \<open>constants\<close> (CLASSIFICATION, REGRESSION,
  AVAILABLE_TASKS) is not part of the sources. The spec names two task kinds,
  classification and regression; they are taken as two distinct strings.
\<close>

definition CLASSIFICATION :: string where
  "CLASSIFICATION = ''classification''"

definition REGRESSION :: string where
  "REGRESSION = ''regression''"

definition AVAILABLE_TASKS :: "string list" where
  "AVAILABLE_TASKS = [CLASSIFICATION, REGRESSION]"

section \<open>Chromosome and Population (population.py)\<close>

text \<open>
  Modelled from the spec: the class \<open>Chromosome\<close> (chromosome.py) is not part of the
  sources. Per the spec a chromosome owns one candidate and a cached fitness that is
  absent until the chromosome is evaluated; \<open>getFitness\<close> returns the last score or fails
  with NotEvaluatedError. The candidate is a Python reference, so it may be \<open>None\<close>.
\<close>

record 'm chromosome =
  c_model :: "'m option"
  c_fitness :: "real option"

definition Chromosome :: "'m option \<Rightarrow> 'm chromosome" where
  "Chromosome m = \<lparr>c_model = m, c_fitness = None\<rparr>"

definition get_fitness :: "'m chromosome \<Rightarrow> error + real" where
  "get_fitness c = (case c_fitness c of None \<Rightarrow> Inl NotEvaluatedError | Some f \<Rightarrow> Inr f)"

definition get_model :: "'m chromosome \<Rightarrow> 'm option" where
  "get_model c = c_model c"

text \<open>
  \<open>Population._is_fitter\<close>: the body is a docstring and a TODO, so every call returns
  Python's \<open>None\<close>, which the callers test for truth.
\<close>

definition is_fitter :: "real \<Rightarrow> real \<Rightarrow> bool option" where
  "is_fitter actual_fitness best_fitness = None"

definition truthy :: "bool option \<Rightarrow> bool" where
  "truthy r = (case r of None \<Rightarrow> False | Some b \<Rightarrow> b)"

text \<open>
  \<open>Population._random_model\<close>: also a docstring and a TODO; it returns \<open>None\<close>.
\<close>

definition random_model :: "'m option" where
  "random_model = None"

text \<open>
  \<open>Population._create_population\<close>: \<open>range(population_size)\<close> is empty for a negative
  size.
\<close>

definition create_population :: "int \<Rightarrow> 'm chromosome list" where
  "create_population population_size = replicate (nat population_size) (Chromosome random_model)"

text \<open>
  The scan of \<open>Population.replace\<close>. The comparator is a parameter of the scan, the way
  the method reaches it through \<open>self\<close>; the accumulator holds \<open>worst_fitness\<close> and
  \<open>worst_position\<close>, which are \<open>None\<close> together.
\<close>

fun worst_scan ::
  "(real \<Rightarrow> real \<Rightarrow> bool) \<Rightarrow> 'm chromosome list \<Rightarrow> nat \<Rightarrow> (real \<times> nat) option
    \<Rightarrow> error + (real \<times> nat) option" where
  "worst_scan fitter [] i acc = Inr acc"
| "worst_scan fitter (chromosome # rest) i acc =
     (case get_fitness chromosome of
        Inl e \<Rightarrow> Inl e
      | Inr chromosome_fitness \<Rightarrow>
          (case acc of
             None \<Rightarrow> worst_scan fitter rest (Suc i) (Some (chromosome_fitness, i))
           | Some (worst_fitness, worst_position) \<Rightarrow>
               if fitter worst_fitness chromosome_fitness
               then worst_scan fitter rest (Suc i) (Some (chromosome_fitness, i))
               else worst_scan fitter rest (Suc i) acc))"

text \<open>
  \<open>Population.replace\<close> with the comparator as a parameter. On an empty population
  \<open>worst_position\<close> is still \<open>None\<close> and the list assignment raises TypeError. The new
  chromosome is built from the incoming model and stored; nothing is evaluated.
\<close>

definition replace_by ::
  "(real \<Rightarrow> real \<Rightarrow> bool) \<Rightarrow> 'm chromosome list \<Rightarrow> 'm option \<Rightarrow> error + 'm chromosome list" where
  "replace_by fitter population model =
     (case worst_scan fitter population 0 None of
        Inl e \<Rightarrow> Inl e
      | Inr None \<Rightarrow> Inl TypeError
      | Inr (Some (worst_fitness, worst_position)) \<Rightarrow>
          Inr (population[worst_position := Chromosome model]))"

text \<open>\<open>Population.replace\<close> as the source has it, with the stub comparator.\<close>

definition replace :: "'m chromosome list \<Rightarrow> 'm option \<Rightarrow> error + 'm chromosome list" where
  "replace population model = replace_by (\<lambda>a b. truthy (is_fitter a b)) population model"

text \<open>
  The population after a call: an exception leaves the list as it was.
\<close>

definition after_replace ::
  "(real \<Rightarrow> real \<Rightarrow> bool) \<Rightarrow> 'm chromosome list \<Rightarrow> 'm option \<Rightarrow> 'm chromosome list" where
  "after_replace fitter population model =
     (case replace_by fitter population model of Inl e \<Rightarrow> population | Inr p \<Rightarrow> p)"

fun replace_all ::
  "(real \<Rightarrow> real \<Rightarrow> bool) \<Rightarrow> 'm chromosome list \<Rightarrow> 'm option list \<Rightarrow> 'm chromosome list" where
  "replace_all fitter population [] = population"
| "replace_all fitter population (model # models) =
     replace_all fitter (after_replace fitter population model) models"

text \<open>
  Modelled from the spec: the fitness comparator of section 4.4. For classification a
  strictly greater score is fitter, for regression a strictly smaller one. The source has
  no implementation of it (\<open>is_fitter\<close> above is what the source does).
\<close>

definition spec_is_fitter :: "string \<Rightarrow> real \<Rightarrow> real \<Rightarrow> bool" where
  "spec_is_fitter task a b =
     (if task = CLASSIFICATION then b < a else if task = REGRESSION then a < b else False)"

section \<open>Python values and the external collaborators\<close>

text \<open>
  The values that travel through the encoded dictionaries. A dictionary is an association
  list; \<open>dict.get\<close> returns \<open>None\<close> for a missing key and raises AttributeError when
  the receiver is not a dictionary (it is \<open>None\<close> when an outer key was missing).
\<close>

datatype pyval =
    PNone
  | PStr string
  | PInt int
  | PFloat real
  | PBytes "8 word list"
  | PList "pyval list"
  | PDict "(string \<times> pyval) list"

definition dict_get :: "pyval \<Rightarrow> string \<Rightarrow> error + pyval" where
  "dict_get d k =
     (case d of
        PDict kvs \<Rightarrow> Inr (case map_of kvs k of None \<Rightarrow> PNone | Some v \<Rightarrow> v)
      | _ \<Rightarrow> Inl AttributeError)"

definition dict_get_default :: "pyval \<Rightarrow> string \<Rightarrow> pyval \<Rightarrow> error + pyval" where
  "dict_get_default d k dflt =
     (case d of
        PDict kvs \<Rightarrow> Inr (case map_of kvs k of None \<Rightarrow> dflt | Some v \<Rightarrow> v)
      | _ \<Rightarrow> Inl AttributeError)"

definition task_available :: "pyval \<Rightarrow> bool" where
  "task_available task = (task \<in> set (map PStr AVAILABLE_TASKS))"

text \<open>
  Modelled from the spec: the module \<open>modelTypes\<close> is not part of the sources; the type
  tags of the two backends are taken as two distinct strings.
\<close>

definition RANDOM_FOREST_MODEL :: string where
  "RANDOM_FOREST_MODEL = ''random_forest''"

definition EVOLUTIONARY_MODEL :: string where
  "EVOLUTIONARY_MODEL = ''evolutionary''"

text \<open>
  What the code consumes from outside, as one record of functions: pandas
  (\<open>list(Y.columns)\<close>, the \<open>DataFrame\<close> constructor), the task inference
  \<open>_determine_task_type\<close>, the successive readings of \<open>time.time()\<close>, scikit-learn
  (\<open>train_test_split\<close> gives the training arrays and, with a validation fraction, the
  validation arrays; one call of \<open>fit_score\<close> stands for building an estimator from
  the task and the configuration, fitting it and scoring it in the epoch of the given
  number; \<open>sk_predict\<close> for \<open>to_numpy\<close> and \<open>predict\<close>) and \<open>pickle\<close>. Type
  \<open>'sk\<close> is a fitted estimator, \<open>'d\<close> a data frame, \<open>'a\<close> an array.
\<close>

record ('sk, 'd, 'a) collaborators =
  columns :: "'d \<Rightarrow> pyval"
  determine_task_type :: "'d \<Rightarrow> error + pyval"
  clock :: "nat \<Rightarrow> real"
  train_test_split :: "'d \<Rightarrow> 'd \<Rightarrow> real option \<Rightarrow> error + 'a \<times> 'a \<times> ('a \<times> 'a) option"
  fit_score :: "pyval \<Rightarrow> pyval \<Rightarrow> 'a \<times> 'a \<times> ('a \<times> 'a) option \<Rightarrow> nat \<Rightarrow> error + 'sk \<times> real"
  sk_predict :: "'sk \<Rightarrow> 'd \<Rightarrow> error + 'a"
  DataFrame :: "'a \<Rightarrow> pyval \<Rightarrow> error + 'd"
  pickle_dumps :: "'sk option \<Rightarrow> 8 word list"
  pickle_loads :: "8 word list \<Rightarrow> error + 'sk option"

section \<open>RandomForestModel: state, prediction and encoding (randomForestModel.py)\<close>

text \<open>
  The attributes of a RandomForestModel. \<open>_criterion\<close> and \<open>_model_score\<close> are not
  assigned when the object is loaded from a dictionary: the outer \<open>None\<close> of these two
  fields is an attribute that does not exist, \<open>Some None\<close> is Python's \<open>None\<close>.
\<close>

record 'sk random_forest =
  rf_task :: pyval
  rf_config :: pyval
  rf_predicted_name :: pyval
  rf_criterion :: "pyval option"
  rf_model :: "'sk option"
  rf_model_score :: "real option option"

definition rf_init :: "pyval \<Rightarrow> pyval \<Rightarrow> pyval \<Rightarrow> 'sk random_forest" where
  "rf_init task config predicted_name =
     \<lparr>rf_task = task, rf_config = config, rf_predicted_name = predicted_name,
      rf_criterion = Some (PStr []), rf_model = None, rf_model_score = Some None\<rparr>"

definition unpickle :: "('sk, 'd, 'a) collaborators \<Rightarrow> pyval \<Rightarrow> error + 'sk option" where
  "unpickle env v = (case v of PBytes b \<Rightarrow> pickle_loads env b | _ \<Rightarrow> Inl TypeError)"

definition rf_init_from_dictionary ::
  "('sk, 'd, 'a) collaborators \<Rightarrow> pyval \<Rightarrow> error + 'sk random_forest" where
  "rf_init_from_dictionary env dictionary =
     (case dict_get dictionary ''MODEL_DATA'' of Inl e \<Rightarrow> Inl e | Inr data \<Rightarrow>
      case dict_get data ''METADATA'' of Inl e \<Rightarrow> Inl e | Inr mdata \<Rightarrow>
      case dict_get data ''MODEL'' of Inl e \<Rightarrow> Inl e | Inr model \<Rightarrow>
      case dict_get mdata ''PREDICTED_NAME'' of Inl e \<Rightarrow> Inl e | Inr predicted_name \<Rightarrow>
      case dict_get mdata ''CONFIG'' of Inl e \<Rightarrow> Inl e | Inr config \<Rightarrow>
      case dict_get mdata ''TASK'' of Inl e \<Rightarrow> Inl e | Inr task \<Rightarrow>
      case unpickle env model of Inl e \<Rightarrow> Inl e | Inr m \<Rightarrow>
        Inr \<lparr>rf_task = task, rf_config = config, rf_predicted_name = predicted_name,
             rf_criterion = None, rf_model = m, rf_model_score = None\<rparr>)"

definition rf_to_dict :: "('sk, 'd, 'a) collaborators \<Rightarrow> 'sk random_forest \<Rightarrow> pyval" where
  "rf_to_dict env self =
     PDict [(''MODEL_TYPE'', PStr RANDOM_FOREST_MODEL),
            (''MODEL_DATA'',
               PDict [(''MODEL'', PBytes (pickle_dumps env (rf_model self))),
                      (''METADATA'',
                         PDict [(''PREDICTED_NAME'', rf_predicted_name self),
                                (''CONFIG'', rf_config self),
                                (''TASK'', rf_task self)])])]"

definition rf_predict ::
  "('sk, 'd, 'a) collaborators \<Rightarrow> 'sk random_forest \<Rightarrow> 'd \<Rightarrow> error + 'd" where
  "rf_predict env self X =
     (case rf_model self of
        None \<Rightarrow> Inl (RandomForestModelException ''Could not call predict before train.'')
      | Some m \<Rightarrow>
          (case sk_predict env m X of
             Inl e \<Rightarrow> Inl e
           | Inr pred \<Rightarrow> DataFrame env pred (rf_predicted_name self)))"

section \<open>EvolutionaryModel: state, prediction and encoding (evolutionaryModel.py)\<close>

text \<open>
  Every model the sources define: a RandomForestModel, or an EvolutionaryModel with its
  attributes \<open>_predicted_name\<close>, \<open>_task\<close>, \<open>_config\<close>, \<open>_input_size\<close>,
  \<open>_output_size\<close>, \<open>_population\<close>, \<open>_model\<close> and \<open>_model_score\<close>. As above,
  \<open>_population\<close> and \<open>_model_score\<close> do not exist on an object loaded from a
  dictionary. The population object is of a type \<open>'pop\<close> of its own: evolutionaryModel.py
  builds it with five arguments, which the constructor in population.py does not take, so
  its construction is a parameter of \<open>evo_init\<close>.
\<close>

datatype ('sk, 'pop) model =
    RandomForestModel "'sk random_forest"
  | EvolutionaryModel
      (ev_predicted_name: pyval) (ev_task: pyval) (ev_config: pyval)
      (ev_input_size: pyval) (ev_output_size: pyval)
      (ev_population: "'pop option option")
      (ev_model: "('sk, 'pop) model option")
      (ev_model_score: "real option option")

definition evo_create_population ::
  "(pyval \<Rightarrow> pyval \<Rightarrow> pyval \<Rightarrow> pyval \<Rightarrow> pyval \<Rightarrow> error + 'pop)
    \<Rightarrow> pyval \<Rightarrow> pyval \<Rightarrow> pyval \<Rightarrow> pyval \<Rightarrow> error + 'pop" where
  "evo_create_population Population in_size out_size task config =
     (let config = (if config = PNone then PDict [] else config) in
      case dict_get_default config ''POPULATION_SIZE'' (PInt 10) of
        Inl e \<Rightarrow> Inl e
      | Inr population_size \<Rightarrow> Population in_size out_size task population_size config)"

definition evo_init ::
  "(pyval \<Rightarrow> pyval \<Rightarrow> pyval \<Rightarrow> pyval \<Rightarrow> pyval \<Rightarrow> error + 'pop)
    \<Rightarrow> pyval \<Rightarrow> pyval \<Rightarrow> pyval \<Rightarrow> pyval \<Rightarrow> pyval \<Rightarrow> error + ('sk, 'pop) model" where
  "evo_init Population in_size out_size task config predicted_name =
     (let config = (if config = PNone then PDict [] else config) in
      if task_available task
      then (case evo_create_population Population in_size out_size task config of
              Inl e \<Rightarrow> Inl e
            | Inr population \<Rightarrow>
                Inr (EvolutionaryModel predicted_name task config in_size out_size
                       (Some (Some population)) None (Some None)))
      else Inr (EvolutionaryModel predicted_name task config in_size out_size
                  (Some None) None (Some None)))"

fun model_type :: "('sk, 'pop) model \<Rightarrow> string" where
  "model_type (RandomForestModel self) = RANDOM_FOREST_MODEL"
| "model_type (EvolutionaryModel pn task config in_size out_size pop m score) = EVOLUTIONARY_MODEL"

fun to_dict :: "('sk, 'd, 'a) collaborators \<Rightarrow> ('sk, 'pop) model \<Rightarrow> pyval" where
  "to_dict env (RandomForestModel self) = rf_to_dict env self"
| "to_dict env (EvolutionaryModel pn task config in_size out_size pop m score) =
     PDict [(''MODEL_TYPE'', PStr EVOLUTIONARY_MODEL),
            (''MODEL_DATA'',
               PDict [(''MODEL'', (case m of None \<Rightarrow> PNone | Some inner \<Rightarrow> to_dict env inner)),
                      (''METADATA'',
                         PDict [(''PRED_NAME'', pn),
                                (''TASK'', task),
                                (''CONFIG'', config),
                                (''INPUT_SIZE'', in_size),
                                (''OUTPUT_SIZE'', out_size)])])]"

text \<open>
  \<open>predict\<close> of both classes; the second component is the object after the call.
  Calling a model (\<open>__call__\<close>) is \<open>predict\<close>.
\<close>

fun predict ::
  "('sk, 'd, 'a) collaborators \<Rightarrow> ('sk, 'pop) model \<Rightarrow> 'd \<Rightarrow> (error + 'd) \<times> ('sk, 'pop) model" where
  "predict env (RandomForestModel self) X = (rf_predict env self X, RandomForestModel self)"
| "predict env (EvolutionaryModel pn task config in_size out_size pop m score) X =
     (case m of
        None \<Rightarrow>
          (Inl (EvolutionaryModelException ''Train the model before performing a prediction.''),
           EvolutionaryModel pn task config in_size out_size pop m score)
      | Some inner \<Rightarrow>
          (case predict env inner X of
             (r, inner') \<Rightarrow>
               (r, EvolutionaryModel pn task config in_size out_size pop (Some inner') score)))"

text \<open>
  Decoding. \<open>EvolutionaryModel._init_from_dictionary\<close> is in the sources and calls
  \<open>load_model\<close>, which is not. Modelled from the spec: \<open>load_model\<close> looks the backend
  up by its MODEL_TYPE tag and hands the dictionary to that backend's constructor; an
  unknown tag fails with UnknownModelTypeError.
\<close>

lemma map_of_size:
  "map_of kvs k = Some v \<Longrightarrow> size v < Suc (size_list (size_prod (\<lambda>_. 0) size) kvs)"
  by (induction kvs) (auto split: if_splits)

lemma dict_get_size: "dict_get d k = Inr v \<Longrightarrow> size v < size d"
  by (cases d) (auto simp: dict_get_def dest: map_of_size split: option.splits)

function load_model :: "('sk, 'd, 'a) collaborators \<Rightarrow> pyval \<Rightarrow> error + ('sk, 'pop) model"
  and evo_init_from_dictionary ::
    "('sk, 'd, 'a) collaborators \<Rightarrow> pyval \<Rightarrow> error + ('sk, 'pop) model" where
  "load_model env dictionary =
     (case dict_get dictionary ''MODEL_TYPE'' of
        Inl e \<Rightarrow> Inl e
      | Inr tag \<Rightarrow>
          if tag = PStr RANDOM_FOREST_MODEL
          then (case rf_init_from_dictionary env dictionary of
                  Inl e \<Rightarrow> Inl e
                | Inr self \<Rightarrow> Inr (RandomForestModel self))
          else if tag = PStr EVOLUTIONARY_MODEL
          then evo_init_from_dictionary env dictionary
          else Inl UnknownModelTypeError)"
| "evo_init_from_dictionary env d0 =
     (case dict_get d0 ''MODEL_DATA'' of Inl e \<Rightarrow> Inl e | Inr d \<Rightarrow>
      case dict_get d ''METADATA'' of Inl e \<Rightarrow> Inl e | Inr data \<Rightarrow>
      case dict_get d ''MODEL'' of Inl e \<Rightarrow> Inl e | Inr model \<Rightarrow>
      case dict_get data ''PRED_NAME'' of Inl e \<Rightarrow> Inl e | Inr predicted_name \<Rightarrow>
      case dict_get data ''TASK'' of Inl e \<Rightarrow> Inl e | Inr task \<Rightarrow>
      case dict_get data ''CONFIG'' of Inl e \<Rightarrow> Inl e | Inr config \<Rightarrow>
      case dict_get data ''INPUT_SIZE'' of Inl e \<Rightarrow> Inl e | Inr input_size \<Rightarrow>
      case dict_get data ''OUTPUT_SIZE'' of Inl e \<Rightarrow> Inl e | Inr output_size \<Rightarrow>
      case load_model env model of Inl e \<Rightarrow> Inl e | Inr m \<Rightarrow>
        Inr (EvolutionaryModel predicted_name task config input_size output_size
               None (Some m) None))"
  by pat_completeness auto
termination
  by (relation "measure (\<lambda>x. case x of Inl (env, d) \<Rightarrow> 2 * size d + 1 | Inr (env, d) \<Rightarrow> 2 * size d)")
     (auto dest!: dict_get_size)

declare load_model.simps [simp del] evo_init_from_dictionary.simps [simp del]

section \<open>RandomForestModel.train (randomForestModel.py)\<close>

text \<open>
  The validation fraction: \<open>None\<close> means no validation; a value whose type is not
  \<open>float\<close> raises; a float outside \<open>[0, 1)\<close> is replaced by 0.2.
\<close>

definition handle_validation :: "pyval \<Rightarrow> error + real option" where
  "handle_validation validation_split =
     (case validation_split of
        PNone \<Rightarrow> Inr None
      | PFloat v \<Rightarrow> Inr (Some (if v < 0 \<or> v \<ge> 1 then 2 / 10 else v))
      | _ \<Rightarrow> Inl (RandomForestModelException
                    ''Parameter validation_split should be None or float in range [0,1)''))"

text \<open>Python's \<open>int()\<close> on a float truncates toward zero.\<close>

definition py_int :: "real \<Rightarrow> int" where
  "py_int x = (if 0 \<le> x then \<lfloor>x\<rfloor> else \<lceil>x\<rceil>)"

text \<open>The rounding of the estimate, the \<open>if\<close> after the division in the loop.\<close>

definition round_epochs :: "real \<Rightarrow> int" where
  "round_epochs e =
     (if e - real_of_int (py_int e) \<ge> 1 / 2 then py_int e + 1 else py_int e)"

text \<open>
  \<open>epochs_to_complete\<close> after an epoch: the remaining time divided by the average epoch
  time, then rounded. The division raises when the average is zero.
\<close>

definition epochs_to_complete :: "real \<Rightarrow> real \<Rightarrow> real \<Rightarrow> error + int" where
  "epochs_to_complete requested_finish epoch_end time_per_epoch =
     (if time_per_epoch = 0 then Inl ZeroDivisionError
      else Inr (round_epochs ((requested_finish - epoch_end) / time_per_epoch)))"

text \<open>
  \<open>_create_model\<close> with \<open>_create_classifier\<close> and \<open>_create_regressor\<close>: what they do
  to the object is to read the configuration and set \<open>_criterion\<close>; the estimator they
  build is part of \<open>fit_score\<close>. For any other task \<open>_create_model\<close> returns \<open>None\<close>
  and the call of \<open>fit\<close> on it raises AttributeError.
\<close>

definition create_model :: "'sk random_forest \<Rightarrow> error + 'sk random_forest" where
  "create_model self =
     (if rf_task self = PStr CLASSIFICATION
      then (case dict_get_default (rf_config self) ''CLASSIFIER'' (PDict []) of
              Inl e \<Rightarrow> Inl e
            | Inr config \<Rightarrow>
                (case dict_get_default config ''CRITERION'' (PStr ''gini'') of
                   Inl e \<Rightarrow> Inl e
                 | Inr c \<Rightarrow> Inr (self\<lparr>rf_criterion := Some c\<rparr>)))
      else if rf_task self = PStr REGRESSION
      then (case dict_get_default (rf_config self) ''REGRESSOR'' (PDict []) of
              Inl e \<Rightarrow> Inl e
            | Inr config \<Rightarrow>
                (case dict_get_default config ''CRITERION'' (PStr ''mse'') of
                   Inl e \<Rightarrow> Inl e
                 | Inr c \<Rightarrow> Inr (self\<lparr>rf_criterion := Some c\<rparr>)))
      else Inl AttributeError)"

text \<open>
  The comparison with the model kept so far: for classification a greater score wins, for
  regression a smaller one. Reading \<open>_model_score\<close> raises when the attribute does not
  exist.
\<close>

definition update_best :: "'sk random_forest \<Rightarrow> 'sk \<Rightarrow> real \<Rightarrow> error + 'sk random_forest" where
  "update_best self model criterion =
     (if rf_task self = PStr CLASSIFICATION \<or> rf_task self = PStr REGRESSION
      then (case rf_model_score self of
              None \<Rightarrow> Inl AttributeError
            | Some model_score \<Rightarrow>
                if (rf_task self = PStr CLASSIFICATION \<and>
                      (case model_score of None \<Rightarrow> True | Some s \<Rightarrow> s < criterion)) \<or>
                   (rf_task self = PStr REGRESSION \<and>
                      (case model_score of None \<Rightarrow> True | Some s \<Rightarrow> s > criterion))
                then Inr (self\<lparr>rf_model_score := Some (Some criterion), rf_model := Some model\<rparr>)
                else Inr self)
      else Inr self)"

text \<open>
  The \<open>while keep_training\<close> loop. It has no bound of its own, so the model takes fuel:
  the result is \<open>None\<close> when the fuel ends before the loop does. Epoch number \<open>epochs\<close>
  reads the clock twice, readings \<open>2 * epochs + 1\<close> and \<open>2 * epochs + 2\<close> (reading 0
  is \<open>start_time\<close>). The block under \<open>epochs % 10 == 9\<close> only prints and is left out.
  The result carries the object as the exception or the end of the loop leaves it.
\<close>

fun train_loop ::
  "('sk, 'd, 'a) collaborators \<Rightarrow> nat \<Rightarrow> 'a \<times> 'a \<times> ('a \<times> 'a) option \<Rightarrow> real \<Rightarrow> real \<Rightarrow> nat
    \<Rightarrow> 'sk random_forest \<Rightarrow> ((error + unit) \<times> 'sk random_forest) option" where
  "train_loop env 0 arrays requested_finish seconds_count epochs self = None"
| "train_loop env (Suc fuel) arrays requested_finish seconds_count epochs self =
     (let epoch_start = clock env (2 * epochs + 1) in
      case create_model self of
        Inl e \<Rightarrow> Some (Inl e, self)
      | Inr self1 \<Rightarrow>
      case fit_score env (rf_task self1) (rf_config self1) arrays epochs of
        Inl e \<Rightarrow> Some (Inl e, self1)
      | Inr (model, criterion) \<Rightarrow>
      case update_best self1 model criterion of
        Inl e \<Rightarrow> Some (Inl e, self1)
      | Inr self2 \<Rightarrow>
          let epoch_end = clock env (2 * epochs + 2);
              epoch_duration = epoch_end - epoch_start;
              seconds_count' = seconds_count + epoch_duration;
              epochs' = epochs + 1;
              time_per_epoch = seconds_count' / real epochs'
          in case epochs_to_complete requested_finish epoch_end time_per_epoch of
               Inl e \<Rightarrow> Some (Inl e, self2)
             | Inr n \<Rightarrow>
                 if n > 0
                 then train_loop env fuel arrays requested_finish seconds_count' epochs' self2
                 else Some (Inr (), self2))"

text \<open>
  \<open>RandomForestModel.train\<close>. The function body has no \<open>return\<close> statement, so a call
  that ends returns Python's \<open>None\<close>: the returned value is of type
  \<open>'sk random_forest option\<close>, with \<open>None\<close> for \<open>None\<close> and \<open>Some\<close> for a model.
\<close>

definition rf_train ::
  "('sk, 'd, 'a) collaborators \<Rightarrow> nat \<Rightarrow> 'sk random_forest \<Rightarrow> 'd \<Rightarrow> 'd \<Rightarrow> real \<Rightarrow> pyval
    \<Rightarrow> ((error + 'sk random_forest option) \<times> 'sk random_forest) option" where
  "rf_train env fuel self X Y train_time validation_split =
     (let self1 = (if rf_predicted_name self = PNone
                   then self\<lparr>rf_predicted_name := columns env Y\<rparr> else self)
      in case (if task_available (rf_task self1) then Inr self1
               else (case determine_task_type env Y of
                       Inl e \<Rightarrow> Inl e
                     | Inr task \<Rightarrow> Inr (self1\<lparr>rf_task := task\<rparr>))) of
           Inl e \<Rightarrow> Some (Inl e, self1)
         | Inr self2 \<Rightarrow>
         case handle_validation validation_split of
           Inl e \<Rightarrow> Some (Inl e, self2)
         | Inr split \<Rightarrow>
         case train_test_split env X Y split of
           Inl e \<Rightarrow> Some (Inl e, self2)
         | Inr arrays \<Rightarrow>
             let start_time = clock env 0;
                 requested_finish = start_time + train_time
             in case train_loop env fuel arrays requested_finish 0 0 self2 of
                  None \<Rightarrow> None
                | Some (Inl e, self3) \<Rightarrow> Some (Inl e, self3)
                | Some (Inr u, self3) \<Rightarrow> Some (Inr None, self3))"

section \<open>EvolutionaryModel.train: keeping the best model of the run\<close>

text \<open>
  The two attributes that the generation loop of \<open>EvolutionaryModel.train\<close> assigns:
  \<open>_model_score\<close> and \<open>_model\<close>, both \<open>None\<close> after the constructor.
\<close>

record 'm run_record =
  run_model_score :: "real option"
  run_model :: "'m option"

text \<open>
  The \<open>if\<close> of the loop body, after the offspring has been evaluated to \<open>score\<close>.
\<close>

definition record_best :: "'m run_record \<Rightarrow> real \<Rightarrow> 'm \<Rightarrow> 'm run_record" where
  "record_best self score offspring_model =
     (case run_model_score self of
        None \<Rightarrow> \<lparr>run_model_score = Some score, run_model = Some offspring_model\<rparr>
      | Some model_score \<Rightarrow>
          if model_score > score
          then \<lparr>run_model_score = Some score, run_model = Some offspring_model\<rparr>
          else self)"

text \<open>
  The loop \<open>for epoch in range(EPOCHS)\<close>. Selection, crossover and mutation are empty
  in population.py, so the offspring of each epoch and its score are given from outside,
  as a function of the epoch number. \<open>epochs_loop offspring n self\<close> is the record after
  the first \<open>n\<close> epochs.
\<close>

definition EPOCHS :: nat where
  "EPOCHS = 100"

fun epochs_loop :: "(nat \<Rightarrow> real \<times> 'm) \<Rightarrow> nat \<Rightarrow> 'm run_record \<Rightarrow> 'm run_record" where
  "epochs_loop offspring 0 self = self"
| "epochs_loop offspring (Suc epoch) self =
     (case offspring epoch of
        (score, offspring_model) \<Rightarrow>
          record_best (epochs_loop offspring epoch self) score offspring_model)"

section \<open>Random candidates (model_creation.py)\<close>

text \<open>
  The module \<open>random\<close> is a source of draws: natural numbers for \<open>choice\<close> and
  \<open>randint\<close>, reals for \<open>uniform\<close>, and the number of draws taken so far. A theorem
  for every source of draws holds for every outcome of the random choices.
\<close>

record rng =
  rng_nat :: "nat \<Rightarrow> nat"
  rng_unit :: "nat \<Rightarrow> real"
  rng_pos :: nat

definition advance :: "rng \<Rightarrow> rng" where
  "advance g = g\<lparr>rng_pos := Suc (rng_pos g)\<rparr>"

text \<open>
  \<open>choice\<close> raises IndexError on an empty sequence; \<open>randint a b\<close> raises ValueError
  when \<open>b < a\<close>; \<open>uniform a b\<close> is \<open>a + (b - a) * random()\<close>.
\<close>

definition choice :: "'a list \<Rightarrow> rng \<Rightarrow> error + 'a \<times> rng" where
  "choice xs g =
     (if xs = [] then Inl IndexError
      else Inr (xs ! (rng_nat g (rng_pos g) mod length xs), advance g))"

definition randint :: "int \<Rightarrow> int \<Rightarrow> rng \<Rightarrow> error + int \<times> rng" where
  "randint a b g =
     (if b < a then Inl ValueError
      else Inr (a + int (rng_nat g (rng_pos g) mod nat (b - a + 1)), advance g))"

definition uniform :: "real \<times> real \<Rightarrow> rng \<Rightarrow> real \<times> rng" where
  "uniform r g = (case r of (a, b) \<Rightarrow> (a + (b - a) * rng_unit g (rng_pos g), advance g))"

text \<open>Sequencing of calls that may raise.\<close>

definition and_then :: "error + 'a \<Rightarrow> ('a \<Rightarrow> error + 'b) \<Rightarrow> error + 'b" where
  "and_then r f = (case r of Inl e \<Rightarrow> Inl e | Inr x \<Rightarrow> f x)"

text \<open>The two list comprehensions: \<open>n\<close> draws in a row.\<close>

fun randints :: "nat \<Rightarrow> int \<Rightarrow> int \<Rightarrow> rng \<Rightarrow> error + int list \<times> rng" where
  "randints 0 a b g = Inr ([], g)"
| "randints (Suc n) a b g =
     and_then (randint a b g) (\<lambda>(x, g').
     and_then (randints n a b g') (\<lambda>(xs, g'').
     Inr (x # xs, g'')))"

fun choices :: "nat \<Rightarrow> 'a list \<Rightarrow> rng \<Rightarrow> error + 'a list \<times> rng" where
  "choices 0 xs g = Inr ([], g)"
| "choices (Suc n) xs g =
     and_then (choice xs g) (\<lambda>(y, g').
     and_then (choices n xs g') (\<lambda>(ys, g'').
     Inr (y # ys, g'')))"

text \<open>
  The search-space configuration, with the types of its documented defaults. A key that
  is absent is \<open>None\<close>, and \<open>config.get\<close> then gives the default. An entry of
  HIDDEN_LAYERS_CHOICES is a string or a list of integers.
\<close>

datatype hidden_choice = HStr string | HList "int list"

record nn_evol_config =
  OPTIMIZER_CHOICE :: "string list option"
  LEARNING_RATE_RANGE :: "(real \<times> real) option"
  MOMENTUM_RANGE :: "(real \<times> real) option"
  HIDDEN_LAYERS_CHOICES :: "hidden_choice list option"
  ACTIVATION_CHOICES :: "string list option"
  DROPOUT_RANGE :: "(real \<times> real) option"

record evol_config =
  MODELS :: "string list option"
  GENERAL_CRITERION :: "string option"
  NEURAL_NETWORK_EVOL_CONFIG :: "nn_evol_config option"

definition empty_nn_config :: nn_evol_config where
  "empty_nn_config =
     \<lparr>OPTIMIZER_CHOICE = None, LEARNING_RATE_RANGE = None, MOMENTUM_RANGE = None,
      HIDDEN_LAYERS_CHOICES = None, ACTIVATION_CHOICES = None, DROPOUT_RANGE = None\<rparr>"

definition get_or :: "'a option \<Rightarrow> 'a \<Rightarrow> 'a" where
  "get_or v dflt = (case v of None \<Rightarrow> dflt | Some x \<Rightarrow> x)"

text \<open>
  The configuration handed to the network: \<open>layers\<close> is the string "smooth" or a list of
  widths, \<open>activation\<close> one string or a list of strings. The class DeepLearningModel is
  not part of the sources; the object it builds is the record of the arguments of the
  constructor call.
\<close>

datatype hidden_layers = Smooth | Widths "int list"

datatype activations = Single string | PerLayer "string list"

record model_config =
  CRITERION :: string
  OPTIMIZER :: string
  LEARNING_RATE :: real
  MOMENTUM :: real
  HIDDEN_LAYERS :: hidden_layers
  ACTIVATIONS :: activations
  DROPOUT :: real

record deep_learning_model =
  dl_in_size :: int
  dl_out_size :: int
  dl_task :: string
  dl_config :: model_config

text \<open>
  The layers: a string entry gives "smooth"; a list entry gives between 1 and
  \<open>max(layer_choice[2], 1)\<close> widths, each between \<open>layer_choice[0]\<close> and
  \<open>layer_choice[1]\<close>. Indexing a list that is too short raises IndexError.
\<close>

definition draw_layers :: "hidden_choice \<Rightarrow> rng \<Rightarrow> error + hidden_layers \<times> rng" where
  "draw_layers layer_choice g =
     (case layer_choice of
        HStr s \<Rightarrow> Inr (Smooth, g)
      | HList l \<Rightarrow>
          if length l < 3 then Inl IndexError
          else and_then (randint 1 (max (l ! 2) 1) g) (\<lambda>(layer_count, g').
               and_then (randints (nat layer_count) (l ! 0) (l ! 1) g') (\<lambda>(ws, g'').
               Inr (Widths ws, g''))))"

text \<open>
  The activation: with "uniform", or with smooth layers, \<open>choice(choice(...))\<close>, which
  draws one of the names and then one character of that name; otherwise one name for each
  layer and one more.
\<close>

definition draw_activation ::
  "string list \<Rightarrow> string \<Rightarrow> hidden_layers \<Rightarrow> rng \<Rightarrow> error + activations \<times> rng" where
  "draw_activation names activation_choice layers g =
     (if activation_choice = ''uniform'' \<or> layers = Smooth
      then and_then (choice names g) (\<lambda>(name, g').
           and_then (choice name g') (\<lambda>(c, g'').
           Inr (Single [c], g'')))
      else (case layers of
              Smooth \<Rightarrow> Inl TypeError
            | Widths ws \<Rightarrow>
                and_then (choices (length ws + 1) names g) (\<lambda>(acts, g').
                Inr (PerLayer acts, g'))))"

text \<open>
  The override for classification: a string is replaced, the last element of a list is
  assigned (IndexError on an empty list).
\<close>

definition force_sigmoid :: "string \<Rightarrow> activations \<Rightarrow> error + activations" where
  "force_sigmoid task activation =
     (if task = CLASSIFICATION
      then (case activation of
              Single s \<Rightarrow> Inr (Single ''sigmoid'')
            | PerLayer acts \<Rightarrow>
                if acts = [] then Inl IndexError
                else Inr (PerLayer (acts[length acts - 1 := ''sigmoid''])))
      else Inr activation)"

definition create_deep_learning_model ::
  "int \<Rightarrow> int \<Rightarrow> nn_evol_config \<Rightarrow> string \<Rightarrow> string \<Rightarrow> rng \<Rightarrow> error + deep_learning_model \<times> rng" where
  "create_deep_learning_model in_size out_size config task criterion g =
     and_then (choice (get_or (OPTIMIZER_CHOICE config) [''Adam'', ''SGD'']) g) (\<lambda>(optimizer, g1).
     case uniform (get_or (LEARNING_RATE_RANGE config) (1 / 1000000, 1)) g1 of (learning_rate, g2) \<Rightarrow>
     case uniform (get_or (MOMENTUM_RANGE config) (0, 1)) g2 of (momentum, g3) \<Rightarrow>
     and_then (choice (get_or (HIDDEN_LAYERS_CHOICES config) [HStr ''smooth'', HList [10, 512, 6]]) g3)
       (\<lambda>(layer_choice, g4).
     and_then (draw_layers layer_choice g4) (\<lambda>(layers, g5).
     and_then (choice [''uniform'', ''list''] g5) (\<lambda>(activation_choice, g6).
     and_then (draw_activation (get_or (ACTIVATION_CHOICES config) [''sigmoid'', ''relu'', ''linear''])
                 activation_choice layers g6) (\<lambda>(activation, g7).
     and_then (force_sigmoid task activation) (\<lambda>activation'.
     case uniform (get_or (DROPOUT_RANGE config) (0, 1)) g7 of (dropout, g8) \<Rightarrow>
       Inr (\<lparr>dl_in_size = in_size, dl_out_size = out_size, dl_task = task,
             dl_config = \<lparr>CRITERION = criterion, OPTIMIZER = optimizer,
                          LEARNING_RATE = learning_rate, MOMENTUM = momentum,
                          HIDDEN_LAYERS = layers, ACTIVATIONS = activation',
                          DROPOUT = dropout\<rparr>\<rparr>, g8)))))))"

text \<open>
  \<open>create_random_model\<close>: only the tag "neural_network" builds a model; the branch of
  "some_future_type" is \<open>pass\<close> and every other tag falls off the end of the function,
  so the call returns \<open>None\<close>.
\<close>

definition create_random_model ::
  "int \<Rightarrow> int \<Rightarrow> evol_config \<Rightarrow> string \<Rightarrow> rng \<Rightarrow> error + deep_learning_model option \<times> rng" where
  "create_random_model in_size out_size config task g =
     and_then (choice (get_or (MODELS config) [''neural_network'']) g) (\<lambda>(model_type, g1).
     let criterion = get_or (GENERAL_CRITERION config) ''MSE'' in
     if model_type = ''neural_network''
     then and_then (create_deep_learning_model in_size out_size
                      (get_or (NEURAL_NETWORK_EVOL_CONFIG config) empty_nn_config) task criterion g1)
            (\<lambda>(m, g2). Inr (Some m, g2))
     else if model_type = ''some_future_type''
     then Inr (None, g1)
     else Inr (None, g1))"

text \<open>
  The last activation of a configuration: the string itself, or the last element of the
  list.
\<close>

definition final_activation :: "activations \<Rightarrow> string option" where
  "final_activation a =
     (case a of
        Single s \<Rightarrow> Some s
      | PerLayer acts \<Rightarrow> (if acts = [] then None else Some (last acts)))"

section \<open>Notions of the specification and concrete inputs\<close>

text \<open>
  Modelled from the spec: "rounds the estimated remaining number of internal iterations
  to the nearest integer (half-up)".
\<close>

definition spec_round_half_up :: "real \<Rightarrow> int" where
  "spec_round_half_up e = \<lfloor>e + 1 / 2\<rfloor>"

text \<open>
  A trained model has a backend model in \<open>_model\<close>; for an EvolutionaryModel the model
  it wraps is trained as well.
\<close>

fun trained :: "('sk, 'pop) model \<Rightarrow> bool" where
  "trained (RandomForestModel self) = (rf_model self \<noteq> None)"
| "trained (EvolutionaryModel pn task config in_size out_size pop m score) =
     (case m of None \<Rightarrow> False | Some inner \<Rightarrow> trained inner)"

text \<open>
  Concrete collaborators for the closed theorems: estimators, data frames and arrays are
  natural numbers, readings of the clock are one second apart, every epoch fits
  estimator 7 with score 0.9, predictions are the sum of estimator and input, and an
  estimator is pickled as the one byte of its number.
\<close>

definition example_env :: "(nat, nat, nat) collaborators" where
  "example_env =
     \<lparr>columns = (\<lambda>Y. PList [PStr ''y'']),
      determine_task_type = (\<lambda>Y. Inr (PStr CLASSIFICATION)),
      clock = (\<lambda>n. real n),
      train_test_split = (\<lambda>X Y split. Inr (X, Y, (case split of None \<Rightarrow> None | Some v \<Rightarrow> Some (X, Y)))),
      fit_score = (\<lambda>task config arrays epoch. Inr (7, 9 / 10)),
      sk_predict = (\<lambda>m X. Inr (m + X)),
      DataFrame = (\<lambda>pred names. Inr pred),
      pickle_dumps = (\<lambda>m. case m of None \<Rightarrow> [] | Some k \<Rightarrow> [of_nat k]),
      pickle_loads = (\<lambda>b. case b of [] \<Rightarrow> Inr None | w # ws \<Rightarrow> Inr (Some (unat w)))\<rparr>"

definition example_forest :: "nat random_forest" where
  "example_forest = rf_init (PStr CLASSIFICATION) (PDict []) PNone"

definition example_population :: "nat chromosome list" where
  "example_population =
     [\<lparr>c_model = Some 1, c_fitness = Some (9 / 10)\<rparr>,
      \<lparr>c_model = Some 2, c_fitness = Some (1 / 10)\<rparr>]"

definition example_offspring :: "nat \<Rightarrow> real \<times> nat" where
  "example_offspring epoch = (if epoch = 0 then (9 / 10, 1) else (1 / 2, 2))"

definition example_rng :: rng where
  "example_rng = \<lparr>rng_nat = (\<lambda>n. 1), rng_unit = (\<lambda>n. 1 / 2), rng_pos = 0\<rparr>"

definition example_config :: evol_config where
  "example_config =
     \<lparr>MODELS = None, GENERAL_CRITERION = None, NEURAL_NETWORK_EVOL_CONFIG = None\<rparr>"

section \<open>Population: proofs\<close>

lemma replace_by_length:
  "replace_by fitter population model = Inr p \<Longrightarrow> length p = length population"
  by (auto simp: replace_by_def split: sum.splits option.splits prod.splits)

lemma after_replace_length:
  "length (after_replace fitter population model) = length population"
  by (auto simp: after_replace_def replace_by_length split: sum.splits)

lemma replace_all_length:
  "length (replace_all fitter population models) = length population"
  by (induction models arbitrary: population) (simp_all add: after_replace_length)

lemma worst_scan_ok:
  "(\<exists>r. worst_scan fitter cs i acc = Inr r) \<longleftrightarrow> list_all (\<lambda>c. c_fitness c \<noteq> None) cs"
  by (induction cs arbitrary: i acc)
     (auto simp: get_fitness_def split: option.splits sum.splits prod.splits)

lemma worst_scan_some:
  "worst_scan fitter cs i acc = Inr None \<Longrightarrow> cs = [] \<and> acc = None"
  by (induction cs arbitrary: i acc)
     (auto simp: get_fitness_def split: option.splits sum.splits prod.splits if_splits)

lemma worst_scan_pos:
  "worst_scan fitter cs i acc = Inr (Some (f, p)) \<Longrightarrow>
   (case acc of None \<Rightarrow> True | Some (f', p') \<Rightarrow> p' < i + length cs) \<Longrightarrow> p < i + length cs"
proof (induction cs arbitrary: i acc)
  case Nil
  then show ?case by simp
next
  case (Cons c cs)
  from Cons.prems(1) obtain x where x: "c_fitness c = Some x"
    by (cases "c_fitness c") (auto simp: get_fitness_def)
  define acc' where "acc' =
    (case acc of None \<Rightarrow> Some (x, i)
     | Some (wfit, wpos) \<Rightarrow> if fitter wfit x then Some (x, i) else acc)"
  have scan: "worst_scan fitter cs (Suc i) acc' = Inr (Some (f, p))"
    using Cons.prems(1) x
    by (auto simp: acc'_def get_fitness_def split: option.splits prod.splits if_splits)
  have bound: "case acc' of None \<Rightarrow> True | Some (f', p') \<Rightarrow> p' < Suc i + length cs"
    using Cons.prems(2)
    by (auto simp: acc'_def split: option.splits prod.splits if_splits)
  from Cons.IH [OF scan bound] show ?case by simp
qed

lemma replace_by_result:
  "replace_by fitter population model = Inr p \<Longrightarrow>
     \<exists>i < length population. p = population[i := Chromosome model]"
  by (auto simp: replace_by_def split: sum.splits option.splits prod.splits
           dest!: worst_scan_pos)

lemma replace_by_returns:
  "(\<exists>p. replace_by fitter population model = Inr p) \<longleftrightarrow>
     population \<noteq> [] \<and> list_all (\<lambda>c. c_fitness c \<noteq> None) population"
  using worst_scan_ok [of fitter population 0 None] worst_scan_some [of fitter population 0 None]
  by (cases population) (auto simp: replace_by_def get_fitness_def split: sum.splits option.splits prod.splits)

text \<open>
  Claim C4. The number of chromosomes never changes: a population seeded with size \<open>n\<close>
  has \<open>n\<close> chromosomes (none for a negative \<open>n\<close>), and after any sequence of calls of
  \<open>replace\<close>, whatever the comparator computes and whether a call returns or raises, the
  population has as many chromosomes as before.
\<close>

theorem population_cardinality_invariant:
  "length (replace_all fitter (create_population n) models) = nat n \<and>
   length (replace_all fitter population models) = length population"
  by (simp add: replace_all_length create_population_def)

text \<open>The invariant on a seeded population of four and on an evaluated population of two.\<close>

theorem population_cardinality_invariant_witness:
  "length (replace_all (\<lambda>a b. truthy (is_fitter a b)) (create_population 4 :: nat chromosome list)
             [Some 3, Some 4]) = 4 \<and>
   length (replace_all (\<lambda>a b. truthy (is_fitter a b)) example_population [Some 3, Some 4]) = 2"
  using population_cardinality_invariant
          [of "\<lambda>a b. truthy (is_fitter a b)" 4 "[Some 3, Some 4]" example_population]
  by (simp add: example_population_def)

text \<open>
  Claim C3, as stated, fails. On a population with fitnesses 0.9 and 0.1 for a
  classification task, \<open>replace\<close> stores the incoming candidate without evaluating
  it (its fitness is absent afterwards), and the chromosome it removes is the one with
  fitness 0.9, which the comparator of the specification ranks above the other.
\<close>

theorem replace_counterexample:
  "replace example_population (Some 3) =
     Inr [\<lparr>c_model = Some 3, c_fitness = None\<rparr>, \<lparr>c_model = Some 2, c_fitness = Some (1 / 10)\<rparr>]
   \<and> spec_is_fitter CLASSIFICATION (9 / 10) (1 / 10)"
  by (simp add: example_population_def replace_def replace_by_def get_fitness_def is_fitter_def
        truthy_def Chromosome_def spec_is_fitter_def)

text \<open>
  Claim C3, amended. \<open>replace\<close> does not evaluate the incoming candidate. It returns
  exactly when the population is not empty and every chromosome in it has been evaluated;
  it then wraps the candidate in a new chromosome without a fitness and overwrites exactly
  one position of the population with it, leaving every other position as it was.
\<close>

theorem replace_overwrites_one_position:
  "((\<exists>p. replace population model = Inr p) \<longleftrightarrow>
      population \<noteq> [] \<and> list_all (\<lambda>c. c_fitness c \<noteq> None) population) \<and>
   (replace population model = Inr p \<longrightarrow>
      (\<exists>i < length population. p = population[i := \<lparr>c_model = model, c_fitness = None\<rparr>]))"
  using replace_by_returns [of "\<lambda>a b. truthy (is_fitter a b)" population model]
        replace_by_result [of "\<lambda>a b. truthy (is_fitter a b)" population model p]
  by (simp add: replace_def Chromosome_def)

text \<open>The amended statement on the population with fitnesses 0.9 and 0.1.\<close>

theorem replace_overwrites_one_position_witness:
  "example_population \<noteq> [] \<and> list_all (\<lambda>c. c_fitness c \<noteq> None) example_population \<and>
   replace example_population (Some 3) =
     Inr [\<lparr>c_model = Some 3, c_fitness = None\<rparr>, \<lparr>c_model = Some 2, c_fitness = Some (1 / 10)\<rparr>] \<and>
   (\<exists>i < length example_population.
      [\<lparr>c_model = Some 3, c_fitness = None\<rparr>, \<lparr>c_model = Some 2, c_fitness = Some (1 / 10)\<rparr>] =
      example_population[i := \<lparr>c_model = Some 3, c_fitness = None\<rparr>])"
  using replace_overwrites_one_position
          [of example_population "Some 3"
              "[\<lparr>c_model = Some 3, c_fitness = None\<rparr>, \<lparr>c_model = Some 2, c_fitness = Some (1 / 10)\<rparr>]"]
  by (simp add: example_population_def replace_def replace_by_def get_fitness_def is_fitter_def
        truthy_def Chromosome_def)

end
